theory Spec2Isabelle
  imports
    Main
    "HOL-Library.AList"
    "HOL-Library.Char_ord"
    "HOL-Library.List_Lexorder"
    "HOL-Library.Product_Lexorder"
    "HOL-Library.Word"
begin

section \<open>Values: timestamps, exceptions, documents\<close>

text \<open>
  A Python \<^verbatim>\<open>datetime\<close> is its seven calendar fields. Two datetimes compare as the
  tuples of their fields do, which is also the order of the document store's timestamps.
\<close>

record datetime =
  year :: nat
  month :: nat
  day :: nat
  hour :: nat
  minute :: nat
  second :: nat
  microsecond :: nat

definition dt_key :: "datetime \<Rightarrow> nat \<times> nat \<times> nat \<times> nat \<times> nat \<times> nat \<times> nat" where
  "dt_key t = (year t, month t, day t, hour t, minute t, second t, microsecond t)"

text \<open>The ranges of the fields of a \<^verbatim>\<open>datetime\<close> object.\<close>

definition valid_datetime :: "datetime \<Rightarrow> bool" where
  "valid_datetime t \<longleftrightarrow>
     1 \<le> year t \<and> year t \<le> 9999 \<and> 1 \<le> month t \<and> month t \<le> 12 \<and> 1 \<le> day t \<and> day t \<le> 31
     \<and> hour t < 24 \<and> minute t < 60 \<and> second t < 60 \<and> microsecond t < 1000000"

text \<open>
  \<^verbatim>\<open>"%0wd" % n\<close>: the decimal digits of \<open>n\<close>, padded with zeros on the left to width
  \<open>w\<close> (and longer than \<open>w\<close> when \<open>n\<close> has more digits).
\<close>

definition digit :: "nat \<Rightarrow> char" where
  "digit d = char_of (48 + d)"

fun str_nat :: "nat \<Rightarrow> string" where
  "str_nat n = (if n < 10 then [digit n] else str_nat (n div 10) @ [digit (n mod 10)])"

declare str_nat.simps [simp del]

definition zfill :: "nat \<Rightarrow> string \<Rightarrow> string" where
  "zfill w s = replicate (w - length s) (CHR ''0'') @ s"

definition fmt_d :: "nat \<Rightarrow> nat \<Rightarrow> string" where
  "fmt_d w n = zfill w (str_nat n)"

text \<open>
  \<^verbatim>\<open>datetime.isoformat()\<close> of a timestamp read back from the store, which is in UTC:
  \<^verbatim>\<open>YYYY-MM-DDTHH:MM:SS\<close>, then \<^verbatim>\<open>.ffffff\<close> unless the microsecond is 0, then the offset.
\<close>

definition frac :: "nat \<Rightarrow> string" where
  "frac us = (if us = 0 then [] else ''.'' @ fmt_d 6 us) @ ''+00:00''"

definition isoformat :: "datetime \<Rightarrow> string" where
  "isoformat t =
     fmt_d 4 (year t) @ ''-'' @ fmt_d 2 (month t) @ ''-'' @ fmt_d 2 (day t) @ ''T''
     @ fmt_d 2 (hour t) @ '':'' @ fmt_d 2 (minute t) @ '':'' @ fmt_d 2 (second t)
     @ frac (microsecond t)"

text \<open>
  \<^verbatim>\<open>serialize_timestamp\<close>: \<^verbatim>\<open>None\<close> stays \<^verbatim>\<open>None\<close>, a datetime becomes its ISO string.
  (The last branch of the source, \<^verbatim>\<open>str(timestamp)\<close>, is for values without
  \<^verbatim>\<open>isoformat\<close>; a timestamp field holds none.)
\<close>

definition serialize_timestamp :: "datetime option \<Rightarrow> string option" where
  "serialize_timestamp ts = (case ts of None \<Rightarrow> None | Some t \<Rightarrow> Some (isoformat t))"

text \<open>
  Exceptions are values. \<open>HTTPException\<close> is the one the web framework turns into a
  response with that status code; \<open>TimeoutException\<close> is \<^verbatim>\<open>httpx.TimeoutException\<close>;
  \<open>KeyError k\<close> is a failed dictionary subscript; \<open>InvalidArgument\<close> is the store's
  refusal of a write; \<open>PyException m\<close> is any other exception, with its message. The detail of an \<open>HTTPException\<close> is either a literal
  text or an f-string \<^verbatim>\<open>f"<prefix>{str(e)}"\<close>, kept symbolic as \<open>Fmt prefix e\<close>.
\<close>

datatype exn =
    HTTPException (status_code: nat) (detail: detail)
  | TimeoutException
  | KeyError string
  | TypeError
  | InvalidArgument
  | PyException string
and detail =
    Lit string
  | Fmt string exn

text \<open>
  Documents of the store are dictionaries; the source reads them with \<^verbatim>\<open>.get(k)\<close>
  (\<^verbatim>\<open>None\<close> when the key is absent) and with \<^verbatim>\<open>[k]\<close> (\<^verbatim>\<open>KeyError\<close> when absent).
  Each field is therefore optional: \<open>None\<close> is the absent key, \<open>Some v\<close> a value of the
  type the handlers of \<^verbatim>\<open>main.py\<close> write.
\<close>

record project_doc =
  userId :: "string option"
  name :: "string option"
  systemPrompt :: "string option"
  createdAt :: "datetime option"

text \<open>An entry of the list sent to the completion endpoint: \<^verbatim>\<open>{"role": .., "content": ..}\<close>.\<close>

record chat_entry =
  role :: "string option"
  content :: "string option"

text \<open>A message document: role, content and timestamp.\<close>

record message_doc = chat_entry +
  timestamp :: "datetime option"

record file_doc =
  projectId :: "string option"
  file_userId :: "string option"
  filename :: "string option"
  contentType :: "string option"
  file_size :: "nat option"
  contentBase64 :: "string option"
  uploadedAt :: "datetime option"

section \<open>The world: document store and outgoing completion requests\<close>

text \<open>
  The collections \<^verbatim>\<open>projects\<close> and \<^verbatim>\<open>files\<close> are lists of (document id, document);
  the \<^verbatim>\<open>messages\<close> subcollections are one list of (project id, document id, document),
  in insertion order. A subcollection lives apart from its parent document, as in the
  store: deleting a project document deletes no message. \<open>llm_requests\<close> records the
  bodies posted to the completion endpoint. Reads and deletions do not fail here, and
  message and project documents are taken to fit the store's limit on the size of a
  document; the write of a file document, which holds a whole payload, is checked
  against that limit.
\<close>

record world =
  projects :: "(string \<times> project_doc) list"
  messages :: "(string \<times> string \<times> message_doc) list"
  files :: "(string \<times> file_doc) list"
  llm_requests :: "chat_entry list list"

definition subcollection :: "world \<Rightarrow> string \<Rightarrow> (string \<times> message_doc) list" where
  "subcollection w project_id = map snd (filter (\<lambda>e. fst e = project_id) (messages w))"

text \<open>
  \<^verbatim>\<open>.order_by("timestamp")\<close>: the documents that have the field, ascending by it, equal
  timestamps by document id. \<^verbatim>\<open>.limit(n)\<close>: the first \<open>n\<close> results of the query.
\<close>

definition order_by_timestamp :: "(string \<times> message_doc) list \<Rightarrow> (string \<times> message_doc) list" where
  "order_by_timestamp ds =
     sort_key (\<lambda>d. (dt_key (the (timestamp (snd d))), fst d))
       (filter (\<lambda>d. timestamp (snd d) \<noteq> None) ds)"

definition limit :: "nat \<Rightarrow> 'a list \<Rightarrow> 'a list" where
  "limit n ds = take n ds"

text \<open>
  The query both \<^verbatim>\<open>chat\<close> and \<^verbatim>\<open>get_chat_history\<close> start from:
  \<^verbatim>\<open>collection("projects").document(project_id).collection("messages").order_by("timestamp")\<close>.
\<close>

definition message_log :: "world \<Rightarrow> string \<Rightarrow> (string \<times> message_doc) list" where
  "message_log w project_id = order_by_timestamp (subcollection w project_id)"

definition add_message :: "string \<Rightarrow> string \<Rightarrow> message_doc \<Rightarrow> world \<Rightarrow> world" where
  "add_message project_id doc_id d w = w\<lparr>messages := messages w @ [(project_id, doc_id, d)]\<rparr>"

section \<open>Completion client\<close>

text \<open>
  What the single POST of \<^verbatim>\<open>call_openrouter_llm\<close> meets: the call raises, or a response
  arrives. \<open>json_content\<close> is the outcome of evaluating
  \<^verbatim>\<open>response.json()["choices"][0]["message"]["content"]\<close> on that response.
\<close>

record response =
  resp_status :: nat
  resp_text :: string
  json_content :: "exn + string"

datatype upstream = Raises exn | Responds response

text \<open>The body of the \<^verbatim>\<open>try\<close> block of \<^verbatim>\<open>call_openrouter_llm\<close>.\<close>

definition llm_try :: "upstream \<Rightarrow> exn + string" where
  "llm_try up =
     (case up of
        Raises e \<Rightarrow> Inl e
      | Responds r \<Rightarrow>
          if resp_status r \<noteq> 200
          then Inl (HTTPException (resp_status r) (Lit (''LLM API error: '' @ resp_text r)))
          else json_content r)"

text \<open>
  The \<^verbatim>\<open>except\<close> clauses, in the source's order: \<^verbatim>\<open>httpx.TimeoutException\<close> first, then
  \<^verbatim>\<open>Exception\<close>, which every other exception value matches, an \<open>HTTPException\<close> too.
\<close>

definition llm_except :: "exn + string \<Rightarrow> exn + string" where
  "llm_except r =
     (case r of
        Inr v \<Rightarrow> Inr v
      | Inl TimeoutException \<Rightarrow> Inl (HTTPException 504 (Lit ''LLM request timeout''))
      | Inl e \<Rightarrow> Inl (HTTPException 500 (Fmt ''LLM error: '' e)))"

definition call_openrouter_llm :: "upstream \<Rightarrow> chat_entry list \<Rightarrow> world \<Rightarrow> (exn + string) \<times> world" where
  "call_openrouter_llm up msgs w =
     (llm_except (llm_try up), w\<lparr>llm_requests := llm_requests w @ [msgs]\<rparr>)"

section \<open>Chat\<close>

text \<open>
  The two \<^verbatim>\<open>except\<close> clauses that close a handler: an \<open>HTTPException\<close> is raised
  again as it is, any other exception becomes an \<open>HTTPException\<close> with the handler's
  status code, whose detail is the handler's prefix followed by \<^verbatim>\<open>str(e)\<close>.
\<close>

definition reraise :: "nat \<Rightarrow> string \<Rightarrow> exn + 'a \<Rightarrow> exn + 'a" where
  "reraise code prefix r =
     (case r of
        Inr v \<Rightarrow> Inr v
      | Inl (HTTPException c d) \<Rightarrow> Inl (HTTPException c d)
      | Inl e \<Rightarrow> Inl (HTTPException code (Fmt prefix e)))"

text \<open>Step 2 of \<^verbatim>\<open>chat\<close>: the query \<^verbatim>\<open>.order_by("timestamp").limit(20)\<close>.\<close>

definition chat_history :: "world \<Rightarrow> string \<Rightarrow> (string \<times> message_doc) list" where
  "chat_history w project_id = limit 20 (message_log w project_id)"

text \<open>Steps 2 and 3 of \<^verbatim>\<open>chat\<close>: the list \<^verbatim>\<open>messages\<close> handed to the completion client.\<close>

definition chat_messages :: "project_doc \<Rightarrow> (string \<times> message_doc) list \<Rightarrow> string \<Rightarrow> chat_entry list" where
  "chat_messages project_data history message =
     [\<lparr>role = Some ''system'',
       content = Some (case systemPrompt project_data of None \<Rightarrow> '''' | Some p \<Rightarrow> p)\<rparr>]
     @ map (\<lambda>msg. \<lparr>role = role (snd msg), content = content (snd msg)\<rparr>) history
     @ [\<lparr>role = Some ''user'', content = Some message\<rparr>]"

text \<open>
  What one chat request reads from outside the store: the completion endpoint's
  behaviour, and for each of the two \<^verbatim>\<open>add\<close> calls the reading of
  \<^verbatim>\<open>datetime.utcnow()\<close> and the document id the store generates.
\<close>

record chat_env =
  llm :: upstream
  now_user :: datetime
  id_user :: string
  now_assistant :: datetime
  id_assistant :: string

record chat_response =
  success :: bool
  response :: string

definition chat_try :: "chat_env \<Rightarrow> world \<Rightarrow> string \<Rightarrow> string \<Rightarrow> string \<Rightarrow> (exn + chat_response) \<times> world" where
  "chat_try env w project_id message user_id =
     (case map_of (projects w) project_id of
        None \<Rightarrow> (Inl (HTTPException 404 (Lit ''Project not found'')), w)
      | Some project_data \<Rightarrow>
          if userId project_data \<noteq> Some user_id
          then (Inl (HTTPException 403 (Lit ''Unauthorized access'')), w)
          else
            (case call_openrouter_llm (llm env)
                    (chat_messages project_data (chat_history w project_id) message) w of
               (Inl e, w1) \<Rightarrow> (Inl e, w1)
             | (Inr assistant_response, w1) \<Rightarrow>
                 let w2 = add_message project_id (id_user env)
                            \<lparr>role = Some ''user'', content = Some message,
                             timestamp = Some (now_user env)\<rparr> w1;
                     w3 = add_message project_id (id_assistant env)
                            \<lparr>role = Some ''assistant'', content = Some assistant_response,
                             timestamp = Some (now_assistant env)\<rparr> w2
                 in (Inr \<lparr>success = True, response = assistant_response\<rparr>, w3)))"

definition chat :: "chat_env \<Rightarrow> world \<Rightarrow> string \<Rightarrow> string \<Rightarrow> string \<Rightarrow> (exn + chat_response) \<times> world" where
  "chat env w project_id message user_id =
     (case chat_try env w project_id message user_id of (r, w') \<Rightarrow> (reraise 500 [] r, w'))"

section \<open>Chat history\<close>

record history_entry = chat_entry +
  timestamp_iso :: "string option"

definition to_history_entry :: "string \<times> message_doc \<Rightarrow> history_entry" where
  "to_history_entry msg =
     \<lparr>role = role (snd msg), content = content (snd msg),
      timestamp_iso = serialize_timestamp (timestamp (snd msg))\<rparr>"

definition get_chat_history_try :: "world \<Rightarrow> string \<Rightarrow> string \<Rightarrow> exn + history_entry list" where
  "get_chat_history_try w project_id user_id =
     (case map_of (projects w) project_id of
        None \<Rightarrow> Inl (HTTPException 404 (Lit ''Project not found''))
      | Some project_data \<Rightarrow>
          if userId project_data \<noteq> Some user_id
          then Inl (HTTPException 403 (Lit ''Unauthorized access''))
          else Inr (map to_history_entry (message_log w project_id)))"

definition get_chat_history :: "world \<Rightarrow> string \<Rightarrow> string \<Rightarrow> exn + history_entry list" where
  "get_chat_history w project_id user_id =
     reraise 500 [] (get_chat_history_try w project_id user_id)"

section \<open>Projects\<close>

record project_dict =
  pd_id :: string
  pd_name :: "string option"
  pd_systemPrompt :: "string option"
  pd_createdAt :: "string option"
  pd_userId :: "string option"

text \<open>
  \<^verbatim>\<open>.where(filter=FieldFilter("userId", "==", user_id)).stream()\<close>: the matching
  documents, in the store's default order, by document id.
\<close>

definition where_userId :: "world \<Rightarrow> string \<Rightarrow> (string \<times> project_doc) list" where
  "where_userId w user_id =
     sort_key fst (filter (\<lambda>p. userId (snd p) = Some user_id) (projects w))"

definition to_project_dict :: "string \<times> project_doc \<Rightarrow> project_dict" where
  "to_project_dict p =
     \<lparr>pd_id = fst p, pd_name = name (snd p), pd_systemPrompt = systemPrompt (snd p),
      pd_createdAt = serialize_timestamp (createdAt (snd p)), pd_userId = userId (snd p)\<rparr>"

text \<open>
  \<^verbatim>\<open>xs.sort(key=k, reverse=True)\<close> on keys that are strings or \<^verbatim>\<open>None\<close>. Sorting two or
  more elements compares every key with another one, and a comparison with \<^verbatim>\<open>None\<close>
  raises \<^verbatim>\<open>TypeError\<close>. Otherwise the list is reversed, sorted stably in ascending order
  of the keys, and reversed again, so that elements with equal keys keep their order.
\<close>

definition sort_reverse :: "('a \<Rightarrow> string option) \<Rightarrow> 'a list \<Rightarrow> exn + 'a list" where
  "sort_reverse k xs =
     (if 2 \<le> length xs \<and> None \<in> set (map k xs) then Inl TypeError
      else Inr (rev (sort_key (\<lambda>x. the (k x)) (rev xs))))"

definition list_projects :: "world \<Rightarrow> string \<Rightarrow> exn + project_dict list" where
  "list_projects w user_id =
     (case sort_reverse pd_createdAt (map to_project_dict (where_userId w user_id)) of
        Inl e \<Rightarrow> Inl (HTTPException 500 (Fmt [] e))
      | Inr result \<Rightarrow> Inr result)"

record project_create =
  pc_name :: string
  system_prompt :: string

text \<open>The reading of the clock and the generated document id of one write.\<close>

record write_env =
  now :: datetime
  new_id :: string

record create_response =
  cp_success :: bool
  cp_projectId :: string
  cp_message :: string

text \<open>
  \<^verbatim>\<open>create_project\<close> writes all four fields of the project document. None of its steps
  raises here, so its \<^verbatim>\<open>except\<close> clause is never entered.
\<close>

definition create_project :: "write_env \<Rightarrow> world \<Rightarrow> project_create \<Rightarrow> string \<Rightarrow> (exn + create_response) \<times> world" where
  "create_project env w project user_id =
     (let project_data = \<lparr>userId = Some user_id, name = Some (pc_name project),
                            systemPrompt = Some (system_prompt project),
                            createdAt = Some (now env)\<rparr>
      in (Inr \<lparr>cp_success = True, cp_projectId = new_id env,
                cp_message = ''Project created successfully''\<rparr>,
          w\<lparr>projects := AList.update (new_id env) project_data (projects w)\<rparr>))"

record status_response =
  dp_success :: bool
  dp_message :: string

text \<open>One \<^verbatim>\<open>msg.reference.delete()\<close>, and the loop over the streamed subcollection.\<close>

definition delete_message :: "string \<Rightarrow> string \<Rightarrow> world \<Rightarrow> world" where
  "delete_message project_id doc_id w =
     w\<lparr>messages := filter (\<lambda>e. \<not> (fst e = project_id \<and> fst (snd e) = doc_id)) (messages w)\<rparr>"

definition delete_messages :: "string \<Rightarrow> world \<Rightarrow> world" where
  "delete_messages project_id w =
     fold (\<lambda>msg. delete_message project_id (fst msg)) (sort_key fst (subcollection w project_id)) w"

definition delete_project_try :: "world \<Rightarrow> string \<Rightarrow> string \<Rightarrow> (exn + status_response) \<times> world" where
  "delete_project_try w project_id user_id =
     (case map_of (projects w) project_id of
        None \<Rightarrow> (Inl (HTTPException 404 (Lit ''Project not found'')), w)
      | Some project \<Rightarrow>
          if userId project \<noteq> Some user_id
          then (Inl (HTTPException 403 (Lit ''Unauthorized access'')), w)
          else
            let w1 = delete_messages project_id w;
                w2 = w1\<lparr>projects := AList.delete project_id (projects w1)\<rparr>
            in (Inr \<lparr>dp_success = True, dp_message = ''Project deleted''\<rparr>, w2))"

definition delete_project :: "world \<Rightarrow> string \<Rightarrow> string \<Rightarrow> (exn + status_response) \<times> world" where
  "delete_project w project_id user_id =
     (case delete_project_try w project_id user_id of (r, w') \<Rightarrow> (reraise 400 [] r, w'))"

section \<open>Files\<close>

text \<open>\<^verbatim>\<open>base64.b64encode(content).decode("utf-8")\<close>.\<close>

definition b64_alphabet :: string where
  "b64_alphabet = ''ABCDEFGHIJKLMNOPQRSTUVWXYZabcdefghijklmnopqrstuvwxyz0123456789+/''"

definition sextet :: "nat \<Rightarrow> char" where
  "sextet n = b64_alphabet ! (n mod 64)"

fun b64encode :: "8 word list \<Rightarrow> string" where
  "b64encode [] = []"
| "b64encode [a] =
     (let n = unat a * 65536
      in [sextet (n div 262144), sextet (n div 4096), CHR ''='', CHR ''=''])"
| "b64encode [a, b] =
     (let n = unat a * 65536 + unat b * 256
      in [sextet (n div 262144), sextet (n div 4096), sextet (n div 64), CHR ''=''])"
| "b64encode (a # b # c # rest) =
     (let n = unat a * 65536 + unat b * 256 + unat c
      in [sextet (n div 262144), sextet (n div 4096), sextet (n div 64), sextet n]
         @ b64encode rest)"

text \<open>
  The store refuses a document of more than 1 MiB. The size of a document is the size of
  its name (each segment of the path as a string, and 16 bytes), the sizes of its field
  names and field values, and 32 bytes; a string takes its bytes and one more, an integer
  or a timestamp 8 bytes, a null 1 byte.
\<close>

definition MAX_DOCUMENT_SIZE :: nat where
  "MAX_DOCUMENT_SIZE = 1048576"

definition string_size :: "string \<Rightarrow> nat" where
  "string_size s = length s + 1"

definition value_size :: "('a \<Rightarrow> nat) \<Rightarrow> 'a option \<Rightarrow> nat" where
  "value_size f v = (case v of None \<Rightarrow> 1 | Some x \<Rightarrow> f x)"

definition file_doc_size :: "string \<Rightarrow> file_doc \<Rightarrow> nat" where
  "file_doc_size doc_id d =
     (string_size ''files'' + string_size doc_id + 16)
     + (string_size ''projectId'' + value_size string_size (projectId d))
     + (string_size ''userId'' + value_size string_size (file_userId d))
     + (string_size ''filename'' + value_size string_size (filename d))
     + (string_size ''contentType'' + value_size string_size (contentType d))
     + (string_size ''size'' + value_size (\<lambda>n. 8) (file_size d))
     + (string_size ''contentBase64'' + value_size string_size (contentBase64 d))
     + (string_size ''uploadedAt'' + value_size (\<lambda>t. 8) (uploadedAt d))
     + 32"

text \<open>\<^verbatim>\<open>file_ref.set(...)\<close> on a document of the collection \<^verbatim>\<open>files\<close>.\<close>

definition set_file :: "string \<Rightarrow> file_doc \<Rightarrow> world \<Rightarrow> exn + world" where
  "set_file doc_id d w =
     (if file_doc_size doc_id d > MAX_DOCUMENT_SIZE then Inl InvalidArgument
      else Inr (w\<lparr>files := AList.update doc_id d (files w)\<rparr>))"

record upload =
  upload_filename :: "string option"
  upload_content_type :: "string option"
  upload_content :: "8 word list"

record upload_response =
  up_success :: bool
  up_fileId :: string
  up_filename :: "string option"
  up_size :: nat
  up_contentType :: "string option"

definition MAX_FILE_SIZE :: nat where
  "MAX_FILE_SIZE = 10 * 1024 * 1024"

definition upload_file_try :: "write_env \<Rightarrow> world \<Rightarrow> string \<Rightarrow> upload \<Rightarrow> string \<Rightarrow> (exn + upload_response) \<times> world" where
  "upload_file_try env w project_id file user_id =
     (case map_of (projects w) project_id of
        None \<Rightarrow> (Inl (HTTPException 404 (Lit ''Project not found'')), w)
      | Some project_doc \<Rightarrow>
          (case userId project_doc of
             None \<Rightarrow> (Inl (KeyError ''userId''), w)
           | Some owner \<Rightarrow>
               if owner \<noteq> user_id
               then (Inl (HTTPException 403 (Lit ''Access denied'')), w)
               else
                 let content = upload_content file;
                     file_size = length content
                 in if file_size > MAX_FILE_SIZE
                    then (Inl (HTTPException 400 (Lit ''File too large. Maximum size: 10.0MB'')), w)
                    else
                      let content_b64 = b64encode content;
                          d = \<lparr>projectId = Some project_id, file_userId = Some user_id,
                               filename = upload_filename file,
                               contentType = upload_content_type file,
                               file_size = Some file_size,
                               contentBase64 = Some content_b64,
                               uploadedAt = Some (now env)\<rparr>
                      in (case set_file (new_id env) d w of
                            Inl e \<Rightarrow> (Inl e, w)
                          | Inr w' \<Rightarrow>
                              (Inr \<lparr>up_success = True, up_fileId = new_id env,
                                     up_filename = upload_filename file, up_size = file_size,
                                     up_contentType = upload_content_type file\<rparr>,
                               w'))))"

definition upload_file :: "write_env \<Rightarrow> world \<Rightarrow> string \<Rightarrow> upload \<Rightarrow> string \<Rightarrow> (exn + upload_response) \<times> world" where
  "upload_file env w project_id file user_id =
     (case upload_file_try env w project_id file user_id of
        (r, w') \<Rightarrow> (reraise 500 ''File upload failed: '' r, w'))"

record delete_file_response =
  df_success :: bool
  df_fileId :: string
  df_message :: string

definition delete_file_try :: "world \<Rightarrow> string \<Rightarrow> string \<Rightarrow> string \<Rightarrow> (exn + delete_file_response) \<times> world" where
  "delete_file_try w project_id file_id user_id =
     (case map_of (projects w) project_id of
        None \<Rightarrow> (Inl (HTTPException 404 (Lit ''Project not found'')), w)
      | Some project_doc \<Rightarrow>
          (case userId project_doc of
             None \<Rightarrow> (Inl (KeyError ''userId''), w)
           | Some owner \<Rightarrow>
               if owner \<noteq> user_id
               then (Inl (HTTPException 403 (Lit ''Access denied'')), w)
               else
                 (case map_of (files w) file_id of
                    None \<Rightarrow> (Inl (HTTPException 404 (Lit ''File not found'')), w)
                  | Some file_doc \<Rightarrow>
                      (case projectId file_doc of
                         None \<Rightarrow> (Inl (KeyError ''projectId''), w)
                       | Some p \<Rightarrow>
                           if p \<noteq> project_id
                           then (Inl (HTTPException 400 (Lit ''File does not belong to project'')), w)
                           else (Inr \<lparr>df_success = True, df_fileId = file_id,
                                      df_message = ''File deleted successfully''\<rparr>,
                                 w\<lparr>files := AList.delete file_id (files w)\<rparr>)))))"

definition delete_file :: "world \<Rightarrow> string \<Rightarrow> string \<Rightarrow> string \<Rightarrow> (exn + delete_file_response) \<times> world" where
  "delete_file w project_id file_id user_id =
     (case delete_file_try w project_id file_id user_id of
        (r, w') \<Rightarrow> (reraise 500 ''Failed to delete file: '' r, w'))"

section \<open>An example store\<close>

definition at_second :: "nat \<Rightarrow> datetime" where
  "at_second s = \<lparr>year = 2024, month = 1, day = 1, hour = 0, minute = 0, second = s, microsecond = 0\<rparr>"

definition demo_project :: project_doc where
  "demo_project = \<lparr>userId = Some ''alice'', name = Some ''demo'',
     systemPrompt = Some ''You are helpful'', createdAt = Some (at_second 0)\<rparr>"

definition demo_world :: world where
  "demo_world = \<lparr>projects = [(''p1'', demo_project)], messages = [], files = [], llm_requests = []\<rparr>"

definition demo_env :: "upstream \<Rightarrow> chat_env" where
  "demo_env up = \<lparr>llm = up, now_user = at_second 5, id_user = ''m1'',
     now_assistant = at_second 6, id_assistant = ''m2''\<rparr>"

text \<open>A project whose log holds 21 messages, written one second apart.\<close>

definition numbered_message :: "nat \<Rightarrow> string \<times> string \<times> message_doc" where
  "numbered_message n =
     (''p1'', ''m'' @ str_nat n,
      \<lparr>role = Some ''user'', content = Some (str_nat n), timestamp = Some (at_second n)\<rparr>)"

definition long_world :: world where
  "long_world = demo_world\<lparr>messages := map numbered_message [1..<22]\<rparr>"

text \<open>A project whose log holds one message stamped at second 10.\<close>

definition late_world :: world where
  "late_world = demo_world\<lparr>messages :=
     [(''p1'', ''m0'', \<lparr>role = Some ''user'', content = Some ''earlier'',
                         timestamp = Some (at_second 10)\<rparr>)]\<rparr>"

definition early_world :: world where
  "early_world = demo_world\<lparr>messages :=
     [(''p1'', ''m0'', \<lparr>role = Some ''user'', content = Some ''earlier'',
                         timestamp = Some (at_second 1)\<rparr>)]\<rparr>"

definition replies :: "string \<Rightarrow> upstream" where
  "replies text = Responds \<lparr>resp_status = 200, resp_text = [], json_content = Inr text\<rparr>"

text \<open>A file in the example project whose stored owner is another user; an upload.\<close>

definition foreign_file :: file_doc where
  "foreign_file = \<lparr>projectId = Some ''p1'', file_userId = Some ''mallory'',
     filename = Some ''notes.txt'', contentType = Some ''text/plain'', file_size = Some 3,
     contentBase64 = Some ''TWFu'', uploadedAt = Some (at_second 2)\<rparr>"

definition files_world :: world where
  "files_world = demo_world\<lparr>files := [(''f1'', foreign_file)]\<rparr>"

definition upload_of :: "nat \<Rightarrow> upload" where
  "upload_of n = \<lparr>upload_filename = Some ''blob.bin'',
     upload_content_type = Some ''application/octet-stream'', upload_content = replicate n 0\<rparr>"

definition demo_write_env :: write_env where
  "demo_write_env = \<lparr>now = at_second 3, new_id = ''f2''\<rparr>"

text \<open>Projects of two users, created at different times.\<close>

definition created :: "string \<Rightarrow> datetime \<Rightarrow> project_doc" where
  "created u t = \<lparr>userId = Some u, name = Some ''agent'', systemPrompt = Some [], createdAt = Some t\<rparr>"

definition projects_world :: world where
  "projects_world = demo_world\<lparr>projects :=
     [(''p1'', created ''alice'' (at_second 0)),
      (''p2'', created ''bob'' (at_second 5)),
      (''p3'', created ''alice'' ((at_second 0)\<lparr>microsecond := 500\<rparr>)),
      (''p4'', created ''alice''
         \<lparr>year = 2023, month = 12, day = 31, hour = 23, minute = 59, second = 59,
          microsecond = 7\<rparr>)]\<rparr>"

section \<open>Properties\<close>

subsection \<open>The completion client\<close>

lemma call_openrouter_llm_raises_http:
  "fst (call_openrouter_llm up msgs w) = Inl e \<Longrightarrow> \<exists>c d. e = HTTPException c d"
  by (auto simp: call_openrouter_llm_def llm_except_def split: sum.splits exn.splits)

lemma call_openrouter_llm_world:
  "snd (call_openrouter_llm up msgs w) = w\<lparr>llm_requests := llm_requests w @ [msgs]\<rparr>"
  by (simp add: call_openrouter_llm_def)

text \<open>Whatever the endpoint does, a failure of the client carries status 504 or 500.\<close>

lemma call_openrouter_llm_status_codes:
  "fst (call_openrouter_llm up msgs w) = Inl e \<Longrightarrow> status_code e = 504 \<or> status_code e = 500"
  by (auto simp: call_openrouter_llm_def llm_except_def split: sum.splits exn.splits)

subsection \<open>Context assembly\<close>

text \<open>
  Claim C3. The list handed to the completion client has two elements more than the
  history; its first element is the system entry, whose content is the project's system
  prompt, or the empty string when the project has none; its last element is the user
  entry with the new text; what lies between is the history, entry by entry, in its
  order, with role and content as stored.
\<close>

theorem chat_messages_shape:
  "length (chat_messages p h t) = length h + 2
   \<and> hd (chat_messages p h t) =
       \<lparr>role = Some ''system'', content = Some (case systemPrompt p of None \<Rightarrow> [] | Some s \<Rightarrow> s)\<rparr>
   \<and> content (hd (chat_messages (p\<lparr>systemPrompt := None\<rparr>) h t)) = Some []
   \<and> content (hd (chat_messages (p\<lparr>systemPrompt := Some s\<rparr>) h t)) = Some s
   \<and> last (chat_messages p h t) = \<lparr>role = Some ''user'', content = Some t\<rparr>
   \<and> butlast (tl (chat_messages p h t)) =
       map (\<lambda>msg. \<lparr>role = role (snd msg), content = content (snd msg)\<rparr>) h"
  by (simp add: chat_messages_def butlast_append)

subsection \<open>Ownership\<close>

text \<open>
  Claim C5. A chat request on a project owned by \<open>u\<close>, issued by another user \<open>v\<close>, is
  answered 403 and leaves the world as it was: the store is unchanged and no request
  has gone to the completion endpoint.
\<close>

theorem chat_forbidden:
  assumes "map_of (projects w) project_id = Some p" and "userId p = Some u" and "v \<noteq> u"
  shows "chat env w project_id message v = (Inl (HTTPException 403 (Lit ''Unauthorized access'')), w)"
  using assms by (simp add: chat_def chat_try_def reraise_def)

theorem chat_forbidden_witness:
  "map_of (projects demo_world) ''p1'' = Some demo_project \<and> userId demo_project = Some ''alice''
   \<and> ''bob'' \<noteq> ''alice''
   \<and> chat (demo_env (Raises TimeoutException)) demo_world ''p1'' ''hi'' ''bob''
       = (Inl (HTTPException 403 (Lit ''Unauthorized access'')), demo_world)"
  using chat_forbidden [of demo_world "''p1''" demo_project "''alice''" "''bob''"
      "demo_env (Raises TimeoutException)" "''hi''"]
  by (simp add: demo_world_def demo_project_def)

subsection \<open>Failure of the completion call\<close>

text \<open>
  Claim C2. When the completion client fails with \<open>e\<close> on the request of an owner, the
  chat request fails with \<open>e\<close>, and the messages, the projects and the files of the store
  are what they were.
\<close>

theorem chat_completion_failure:
  assumes "map_of (projects w) project_id = Some p" and "userId p = Some user_id"
    and "fst (call_openrouter_llm (llm env) (chat_messages p (chat_history w project_id) message) w) = Inl e"
  shows "fst (chat env w project_id message user_id) = Inl e
    \<and> messages (snd (chat env w project_id message user_id)) = messages w
    \<and> projects (snd (chat env w project_id message user_id)) = projects w
    \<and> files (snd (chat env w project_id message user_id)) = files w"
proof -
  obtain c d where e: "e = HTTPException c d"
    using assms(3) call_openrouter_llm_raises_http by blast
  obtain r w1 where call: "call_openrouter_llm (llm env) (chat_messages p (chat_history w project_id) message) w = (r, w1)"
    by (cases "call_openrouter_llm (llm env) (chat_messages p (chat_history w project_id) message) w")
  have r: "r = Inl e" using assms(3) call by simp
  have w1: "w1 = w\<lparr>llm_requests := llm_requests w @ [chat_messages p (chat_history w project_id) message]\<rparr>"
    using call_openrouter_llm_world [of "llm env" "chat_messages p (chat_history w project_id) message" w] call
    by simp
  have "chat env w project_id message user_id = (Inl e, w1)"
    using assms(1,2) call r e by (simp add: chat_def chat_try_def reraise_def)
  then show ?thesis using w1 by simp
qed

theorem chat_completion_failure_witness:
  "map_of (projects demo_world) ''p1'' = Some demo_project \<and> userId demo_project = Some ''alice''
   \<and> fst (call_openrouter_llm (llm (demo_env (Raises TimeoutException)))
            (chat_messages demo_project (chat_history demo_world ''p1'') ''hi'') demo_world)
       = Inl (HTTPException 504 (Lit ''LLM request timeout''))
   \<and> fst (chat (demo_env (Raises TimeoutException)) demo_world ''p1'' ''hi'' ''alice'')
       = Inl (HTTPException 504 (Lit ''LLM request timeout''))
   \<and> messages (snd (chat (demo_env (Raises TimeoutException)) demo_world ''p1'' ''hi'' ''alice''))
       = messages demo_world"
proof -
  have p: "map_of (projects demo_world) ''p1'' = Some demo_project"
    by (simp add: demo_world_def)
  have u: "userId demo_project = Some ''alice''"
    by (simp add: demo_project_def)
  have f: "fst (call_openrouter_llm (llm (demo_env (Raises TimeoutException)))
            (chat_messages demo_project (chat_history demo_world ''p1'') ''hi'') demo_world)
       = Inl (HTTPException 504 (Lit ''LLM request timeout''))"
    by (simp add: call_openrouter_llm_def llm_except_def llm_try_def demo_env_def)
  show ?thesis
    using p u f chat_completion_failure [OF p u f] by simp
qed

subsection \<open>Status of an upstream error\<close>

text \<open>
  Claim C4. The endpoint answers 429 with the body \<^verbatim>\<open>rate limited\<close>. The \<open>HTTPException\<close>
  with status 429 raised in the \<^verbatim>\<open>try\<close> block is caught by the client's own
  \<^verbatim>\<open>except Exception\<close> clause, and the caller of \<^verbatim>\<open>chat\<close> receives status 500.
\<close>

theorem chat_upstream_status_replaced:
  "fst (chat (demo_env (Responds \<lparr>resp_status = 429, resp_text = ''rate limited'',
                                   json_content = Inl (KeyError ''choices'')\<rparr>))
          demo_world ''p1'' ''hi'' ''alice'')
   = Inl (HTTPException 500
            (Fmt ''LLM error: '' (HTTPException 429 (Lit ''LLM API error: rate limited''))))"
  by (simp add: chat_def chat_try_def demo_world_def demo_project_def demo_env_def
      call_openrouter_llm_def llm_try_def llm_except_def reraise_def)

subsection \<open>The history read by chat\<close>

lemma chat_history_prefix: "chat_history w p = take 20 (message_log w p)"
  by (simp add: chat_history_def limit_def)

lemma chat_history_length: "length (chat_history w p) \<le> 20"
  by (simp add: chat_history_prefix)

lemma long_world_log:
  "message_log long_world ''p1'' = map (snd \<circ> numbered_message) [1..<22]"
  by code_simp

text \<open>
  Claim C1. The log of the example project holds the messages 1 to 21, oldest first.
  The history \<^verbatim>\<open>chat\<close> reads has 20 entries, and they are the messages 1 to 20, the
  oldest ones: the query is ascending and \<^verbatim>\<open>limit(20)\<close> keeps its first results. The 20
  most recent messages are 2 to 21.
\<close>

theorem chat_history_keeps_oldest:
  "length (message_log long_world ''p1'') = 21
   \<and> length (chat_history long_world ''p1'') = 20
   \<and> chat_history long_world ''p1'' = map (snd \<circ> numbered_message) [1..<21]
   \<and> drop 1 (message_log long_world ''p1'') = map (snd \<circ> numbered_message) [2..<22]
   \<and> chat_history long_world ''p1'' \<noteq> drop 1 (message_log long_world ''p1'')"
proof -
  have a: "chat_history long_world ''p1'' = map (snd \<circ> numbered_message) [1..<21]"
    unfolding chat_history_prefix long_world_log by code_simp
  have b: "drop 1 (message_log long_world ''p1'') = map (snd \<circ> numbered_message) [2..<22]"
    unfolding long_world_log by code_simp
  have c: "map (snd \<circ> numbered_message) [1..<21] \<noteq> map (snd \<circ> numbered_message) [2..<22]"
    by code_simp
  show ?thesis using a b c by (simp add: long_world_log)
qed

subsection \<open>A successful chat request\<close>

lemma insort_key_snoc:
  "f x \<le> f a \<Longrightarrow> insort_key f x (ys @ [a]) = insort_key f x ys @ [a]"
  by (induction ys) auto

lemma sort_key_snoc:
  "(\<And>x. x \<in> set xs \<Longrightarrow> f x \<le> f a) \<Longrightarrow> sort_key f (xs @ [a]) = sort_key f xs @ [a]"
proof (induction xs)
  case Nil
  then show ?case by simp
next
  case (Cons x xs)
  have "sort_key f ((x # xs) @ [a]) = insort_key f x (sort_key f (xs @ [a]))"
    by simp
  also have "\<dots> = insort_key f x (sort_key f xs @ [a])"
    using Cons by simp
  also have "\<dots> = insort_key f x (sort_key f xs) @ [a]"
    using Cons.prems by (simp add: insort_key_snoc)
  finally show ?case by simp
qed

lemma order_by_timestamp_snoc:
  assumes "\<And>d t. d \<in> set ds \<Longrightarrow> timestamp (snd d) = Some t \<Longrightarrow> dt_key t < dt_key tnow"
    and "timestamp m = Some tnow"
  shows "order_by_timestamp (ds @ [(i, m)]) = order_by_timestamp ds @ [(i, m)]"
proof -
  let ?f = "\<lambda>d :: string \<times> message_doc. (dt_key (the (timestamp (snd d))), fst d)"
  let ?xs = "filter (\<lambda>d. timestamp (snd d) \<noteq> None) ds"
  have "?f x \<le> ?f (i, m)" if "x \<in> set ?xs" for x
  proof -
    from that obtain t where "x \<in> set ds" "timestamp (snd x) = Some t" by auto
    then show ?thesis using assms by auto
  qed
  then have "sort_key ?f (?xs @ [(i, m)]) = sort_key ?f ?xs @ [(i, m)]"
    by (rule sort_key_snoc)
  then show ?thesis using assms(2) by (simp add: order_by_timestamp_def)
qed

lemma set_order_by_timestamp:
  "set (order_by_timestamp ds) = {d \<in> set ds. timestamp (snd d) \<noteq> None}"
  by (simp add: order_by_timestamp_def)

lemma length_order_by_timestamp:
  "length (order_by_timestamp ds) = length (filter (\<lambda>d. timestamp (snd d) \<noteq> None) ds)"
  by (simp add: order_by_timestamp_def)

lemma subcollection_add_message:
  "subcollection (add_message p i m w) q =
     (if q = p then subcollection w q @ [(i, m)] else subcollection w q)"
  by (simp add: subcollection_def add_message_def)

lemma chat_success:
  assumes "map_of (projects w) project_id = Some p" and "userId p = Some user_id"
    and "fst (call_openrouter_llm (llm env) (chat_messages p (chat_history w project_id) message) w) = Inr reply"
  shows "chat env w project_id message user_id =
    (Inr \<lparr>success = True, response = reply\<rparr>,
     add_message project_id (id_assistant env)
       \<lparr>role = Some ''assistant'', content = Some reply, timestamp = Some (now_assistant env)\<rparr>
       (add_message project_id (id_user env)
          \<lparr>role = Some ''user'', content = Some message, timestamp = Some (now_user env)\<rparr>
          (w\<lparr>llm_requests := llm_requests w @ [chat_messages p (chat_history w project_id) message]\<rparr>)))"
proof -
  obtain r w1 where call: "call_openrouter_llm (llm env) (chat_messages p (chat_history w project_id) message) w = (r, w1)"
    by (cases "call_openrouter_llm (llm env) (chat_messages p (chat_history w project_id) message) w")
  have r: "r = Inr reply" using assms(3) call by simp
  have w1: "w1 = w\<lparr>llm_requests := llm_requests w @ [chat_messages p (chat_history w project_id) message]\<rparr>"
    using call_openrouter_llm_world [of "llm env" "chat_messages p (chat_history w project_id) message" w] call
    by simp
  show ?thesis
    using assms(1,2) call r w1 by (simp add: chat_def chat_try_def reraise_def Let_def)
qed

text \<open>
  Claim C6, as stated, fails. The log of the example project holds one message stamped
  at second 10; the clock of the server that handles the request reads second 5 and
  then second 6. The request succeeds, and in the log, which is ordered by timestamp, the
  two new messages stand before the message that was there.
\<close>

theorem chat_new_messages_before_old:
  "fst (chat (demo_env (replies ''hello'')) late_world ''p1'' ''hi'' ''alice'')
     = Inr \<lparr>success = True, response = ''hello''\<rparr>
   \<and> map (content \<circ> snd) (message_log late_world ''p1'') = [Some ''earlier'']
   \<and> map (content \<circ> snd)
        (message_log (snd (chat (demo_env (replies ''hello'')) late_world ''p1'' ''hi'' ''alice'')) ''p1'')
     = [Some ''hi'', Some ''hello'', Some ''earlier'']"
  by code_simp

text \<open>
  Claim C6, amended. A successful chat request adds exactly two documents to the
  project's messages, the user message and then the assistant message; both are in the
  log, with the role and content given, and the log is two entries longer. If moreover
  the clock reading of the user message is later than every timestamp in the project's
  messages, and the reading of the assistant message later still, then the log is the
  former log followed by the user message and the assistant message, and the history
  handler returns the former history followed by these two entries.
\<close>

theorem chat_appends_two:
  fixes env :: chat_env and w :: world and message reply :: string
  defines "um \<equiv> \<lparr>role = Some ''user'', content = Some message, timestamp = Some (now_user env)\<rparr>"
    and "am \<equiv> \<lparr>role = Some ''assistant'', content = Some reply, timestamp = Some (now_assistant env)\<rparr>"
  assumes "map_of (projects w) project_id = Some p" and "userId p = Some user_id"
    and "fst (call_openrouter_llm (llm env) (chat_messages p (chat_history w project_id) message) w) = Inr reply"
  defines "w' \<equiv> snd (chat env w project_id message user_id)"
  shows "fst (chat env w project_id message user_id) = Inr \<lparr>success = True, response = reply\<rparr>
    \<and> messages w' = messages w @ [(project_id, id_user env, um), (project_id, id_assistant env, am)]
    \<and> (id_user env, um) \<in> set (message_log w' project_id)
    \<and> (id_assistant env, am) \<in> set (message_log w' project_id)
    \<and> length (message_log w' project_id) = length (message_log w project_id) + 2
    \<and> ((\<forall>d \<in> set (subcollection w project_id). \<forall>t. timestamp (snd d) = Some t
            \<longrightarrow> dt_key t < dt_key (now_user env))
        \<and> dt_key (now_user env) < dt_key (now_assistant env)
        \<longrightarrow> message_log w' project_id
              = message_log w project_id @ [(id_user env, um), (id_assistant env, am)]
          \<and> get_chat_history w' project_id user_id =
              Inr (map to_history_entry (message_log w project_id)
                   @ [\<lparr>role = Some ''user'', content = Some message,
                        timestamp_iso = Some (isoformat (now_user env))\<rparr>,
                      \<lparr>role = Some ''assistant'', content = Some reply,
                        timestamp_iso = Some (isoformat (now_assistant env))\<rparr>]))"
proof -
  let ?w0 = "w\<lparr>llm_requests := llm_requests w @ [chat_messages p (chat_history w project_id) message]\<rparr>"
  have chat: "chat env w project_id message user_id =
      (Inr \<lparr>success = True, response = reply\<rparr>,
       add_message project_id (id_assistant env) am (add_message project_id (id_user env) um ?w0))"
    using chat_success [OF assms(3,4,5)] um_def am_def by simp
  then have w': "w' = add_message project_id (id_assistant env) am (add_message project_id (id_user env) um ?w0)"
    using w'_def by simp
  have msgs: "messages w' = messages w @ [(project_id, id_user env, um), (project_id, id_assistant env, am)]"
    using w' by (simp add: add_message_def)
  have sub0: "subcollection ?w0 project_id = subcollection w project_id"
    by (simp add: subcollection_def)
  have sub: "subcollection w' project_id = (subcollection w project_id @ [(id_user env, um)]) @ [(id_assistant env, am)]"
    using w' sub0 by (simp add: subcollection_add_message)
  have in_u: "(id_user env, um) \<in> set (message_log w' project_id)"
    using sub um_def by (simp add: message_log_def set_order_by_timestamp)
  have in_a: "(id_assistant env, am) \<in> set (message_log w' project_id)"
    using sub am_def by (simp add: message_log_def set_order_by_timestamp)
  have len: "length (message_log w' project_id) = length (message_log w project_id) + 2"
    using sub um_def am_def by (simp add: message_log_def length_order_by_timestamp)
  have ordered: "message_log w' project_id
        = message_log w project_id @ [(id_user env, um), (id_assistant env, am)]
      \<and> get_chat_history w' project_id user_id =
        Inr (map to_history_entry (message_log w project_id)
             @ [\<lparr>role = Some ''user'', content = Some message,
                  timestamp_iso = Some (isoformat (now_user env))\<rparr>,
                \<lparr>role = Some ''assistant'', content = Some reply,
                  timestamp_iso = Some (isoformat (now_assistant env))\<rparr>])"
    if older: "\<forall>d \<in> set (subcollection w project_id). \<forall>t. timestamp (snd d) = Some t
            \<longrightarrow> dt_key t < dt_key (now_user env)"
      and later: "dt_key (now_user env) < dt_key (now_assistant env)"
  proof -
    have step1: "order_by_timestamp (subcollection w project_id @ [(id_user env, um)])
        = order_by_timestamp (subcollection w project_id) @ [(id_user env, um)]"
      using older um_def by (intro order_by_timestamp_snoc [where tnow = "now_user env"]) auto
    have old: "dt_key t < dt_key (now_assistant env)"
      if "d \<in> set (subcollection w project_id @ [(id_user env, um)])" "timestamp (snd d) = Some t" for d t
      using that older later um_def by (auto intro: less_trans)
    have step2: "order_by_timestamp ((subcollection w project_id @ [(id_user env, um)]) @ [(id_assistant env, am)])
        = order_by_timestamp (subcollection w project_id @ [(id_user env, um)]) @ [(id_assistant env, am)]"
      using old am_def by (intro order_by_timestamp_snoc [where tnow = "now_assistant env"]) auto
    have log: "message_log w' project_id = message_log w project_id @ [(id_user env, um), (id_assistant env, am)]"
      using sub step1 step2 by (simp add: message_log_def)
    have proj: "projects w' = projects w"
      using w' by (simp add: add_message_def)
    have hist: "get_chat_history w' project_id user_id = Inr (map to_history_entry (message_log w' project_id))"
      using assms(3,4) proj by (simp add: get_chat_history_def get_chat_history_try_def reraise_def)
    show ?thesis
      using log hist um_def am_def by (simp add: to_history_entry_def serialize_timestamp_def)
  qed
  have first: "fst (chat env w project_id message user_id) = Inr \<lparr>success = True, response = reply\<rparr>"
    using chat by simp
  show ?thesis
    using first msgs in_u in_a len ordered by blast
qed

theorem chat_appends_two_witness:
  "map_of (projects early_world) ''p1'' = Some demo_project
   \<and> userId demo_project = Some ''alice''
   \<and> fst (call_openrouter_llm (llm (demo_env (replies ''hello'')))
            (chat_messages demo_project (chat_history early_world ''p1'') ''hi'') early_world)
       = Inr ''hello''
   \<and> map (timestamp \<circ> snd) (subcollection early_world ''p1'') = [Some (at_second 1)]
   \<and> dt_key (at_second 1) < dt_key (now_user (demo_env (replies ''hello'')))
   \<and> dt_key (now_user (demo_env (replies ''hello''))) < dt_key (now_assistant (demo_env (replies ''hello'')))
   \<and> map (\<lambda>d. (role (snd d), content (snd d)))
        (message_log (snd (chat (demo_env (replies ''hello'')) early_world ''p1'' ''hi'' ''alice'')) ''p1'')
       = [(Some ''user'', Some ''earlier''), (Some ''user'', Some ''hi''), (Some ''assistant'', Some ''hello'')]"
proof -
  have p: "map_of (projects early_world) ''p1'' = Some demo_project"
    by (simp add: early_world_def demo_world_def)
  have u: "userId demo_project = Some ''alice''"
    by (simp add: demo_project_def)
  have c: "fst (call_openrouter_llm (llm (demo_env (replies ''hello'')))
            (chat_messages demo_project (chat_history early_world ''p1'') ''hi'') early_world)
       = Inr ''hello''"
    by (simp add: call_openrouter_llm_def llm_except_def llm_try_def demo_env_def replies_def)
  have old: "\<forall>d \<in> set (subcollection early_world ''p1''). \<forall>t. timestamp (snd d) = Some t
          \<longrightarrow> dt_key t < dt_key (now_user (demo_env (replies ''hello'')))"
    by (simp add: subcollection_def early_world_def demo_world_def demo_env_def dt_key_def at_second_def)
  have lt: "dt_key (now_user (demo_env (replies ''hello''))) < dt_key (now_assistant (demo_env (replies ''hello'')))"
    by (simp add: demo_env_def dt_key_def at_second_def)
  have log0: "message_log early_world ''p1'' = [(''m0'', \<lparr>role = Some ''user'', content = Some ''earlier'',
                         timestamp = Some (at_second 1)\<rparr>)]"
    by (simp add: message_log_def order_by_timestamp_def subcollection_def early_world_def demo_world_def)
  have ts: "map (timestamp \<circ> snd) (subcollection early_world ''p1'') = [Some (at_second 1)]"
    by (simp add: subcollection_def early_world_def demo_world_def)
  have lt0: "dt_key (at_second 1) < dt_key (now_user (demo_env (replies ''hello'')))"
    by (simp add: demo_env_def dt_key_def at_second_def)
  have "message_log (snd (chat (demo_env (replies ''hello'')) early_world ''p1'' ''hi'' ''alice'')) ''p1''
      = message_log early_world ''p1''
        @ [(id_user (demo_env (replies ''hello'')),
            \<lparr>role = Some ''user'', content = Some ''hi'',
             timestamp = Some (now_user (demo_env (replies ''hello'')))\<rparr>),
           (id_assistant (demo_env (replies ''hello'')),
            \<lparr>role = Some ''assistant'', content = Some ''hello'',
             timestamp = Some (now_assistant (demo_env (replies ''hello'')))\<rparr>)]"
    using chat_appends_two [OF p u c] old lt by blast
  then show ?thesis
    using p u c ts lt0 lt log0 by simp
qed

subsection \<open>Deleting a project\<close>

lemma fold_delete_message:
  "messages (fold (\<lambda>msg. delete_message p (fst msg)) ds w)
     = filter (\<lambda>e. \<not> (fst e = p \<and> fst (snd e) \<in> fst ` set ds)) (messages w)
   \<and> projects (fold (\<lambda>msg. delete_message p (fst msg)) ds w) = projects w
   \<and> files (fold (\<lambda>msg. delete_message p (fst msg)) ds w) = files w"
proof (induction ds arbitrary: w)
  case Nil
  then show ?case by simp
next
  case (Cons d ds)
  have "messages (delete_message p (fst d) w)
      = filter (\<lambda>e. \<not> (fst e = p \<and> fst (snd e) = fst d)) (messages w)"
    by (simp add: delete_message_def)
  moreover have "files (delete_message p (fst d) w) = files w"
    by (simp add: delete_message_def)
  moreover have "projects (delete_message p (fst d) w) = projects w"
    by (simp add: delete_message_def)
  ultimately show ?case
    using Cons.IH [of "delete_message p (fst d) w"]
    by (auto intro: filter_cong)
qed

lemma delete_messages_empties:
  "subcollection (delete_messages p w) p = []"
proof -
  have "fst (snd e) \<in> fst ` set (sort_key fst (subcollection w p))"
    if "e \<in> set (messages w)" "fst e = p" for e
    using that by (force simp: subcollection_def)
  then have "filter (\<lambda>e. fst e = p)
      (filter (\<lambda>e. \<not> (fst e = p \<and> fst (snd e) \<in> fst ` set (sort_key fst (subcollection w p)))) (messages w)) = []"
    by (auto simp: filter_empty_conv)
  then show ?thesis
    using fold_delete_message [of p "sort_key fst (subcollection w p)" w]
    by (simp add: delete_messages_def subcollection_def)
qed

lemma list_projects_ids:
  "list_projects w u = Inr ps \<Longrightarrow> set (map pd_id ps) \<subseteq> fst ` set (projects w)"
  by (force simp: list_projects_def sort_reverse_def where_userId_def to_project_dict_def
      split: sum.splits if_splits)

text \<open>
  Claim C7. When its owner deletes a project, the request succeeds; afterwards the
  project document is gone, no message of the project is left in the store, its log is
  empty, no listing of the caller's projects contains it, and the history handler answers
  404 for it.
\<close>

theorem delete_project_cascades:
  fixes w :: world
  assumes "map_of (projects w) project_id = Some p" and "userId p = Some user_id"
  defines "w' \<equiv> snd (delete_project w project_id user_id)"
  shows "fst (delete_project w project_id user_id)
           = Inr \<lparr>dp_success = True, dp_message = ''Project deleted''\<rparr>
    \<and> map_of (projects w') project_id = None
    \<and> subcollection w' project_id = []
    \<and> message_log w' project_id = []
    \<and> (\<forall>ps. list_projects w' user_id = Inr ps \<longrightarrow> project_id \<notin> set (map pd_id ps))
    \<and> get_chat_history w' project_id user_id = Inl (HTTPException 404 (Lit ''Project not found''))"
proof -
  let ?w1 = "delete_messages project_id w"
  let ?w2 = "?w1\<lparr>projects := AList.delete project_id (projects ?w1)\<rparr>"
  have del: "delete_project w project_id user_id
      = (Inr \<lparr>dp_success = True, dp_message = ''Project deleted''\<rparr>, ?w2)"
    using assms(1,2) by (simp add: delete_project_def delete_project_try_def reraise_def Let_def)
  then have w': "w' = ?w2" by (simp add: w'_def)
  have gone: "map_of (projects w') project_id = None"
    using w' by (simp add: AList.delete_conv')
  have sub: "subcollection w' project_id = []"
    using w' delete_messages_empties [of project_id w] by (simp add: subcollection_def)
  have log: "message_log w' project_id = []"
    using sub by (simp add: message_log_def order_by_timestamp_def)
  have notin: "project_id \<notin> fst ` set (projects w')"
    using gone by (simp add: map_of_eq_None_iff)
  have lst: "\<forall>ps. list_projects w' user_id = Inr ps \<longrightarrow> project_id \<notin> set (map pd_id ps)"
    using notin list_projects_ids [of w' user_id] by blast
  have hist: "get_chat_history w' project_id user_id = Inl (HTTPException 404 (Lit ''Project not found''))"
    using gone by (simp add: get_chat_history_def get_chat_history_try_def reraise_def)
  show ?thesis using del gone sub log lst hist by simp
qed

theorem delete_project_cascades_witness:
  "map_of (projects early_world) ''p1'' = Some demo_project
   \<and> userId demo_project = Some ''alice''
   \<and> subcollection early_world ''p1'' \<noteq> []
   \<and> list_projects (snd (delete_project early_world ''p1'' ''alice'')) ''alice'' = Inr []
   \<and> fst (delete_project early_world ''p1'' ''alice'')
       = Inr \<lparr>dp_success = True, dp_message = ''Project deleted''\<rparr>
   \<and> subcollection (snd (delete_project early_world ''p1'' ''alice'')) ''p1'' = []
   \<and> get_chat_history (snd (delete_project early_world ''p1'' ''alice'')) ''p1'' ''alice''
       = Inl (HTTPException 404 (Lit ''Project not found''))"
proof -
  have p: "map_of (projects early_world) ''p1'' = Some demo_project"
    by (simp add: early_world_def demo_world_def)
  have u: "userId demo_project = Some ''alice''"
    by (simp add: demo_project_def)
  have s: "subcollection early_world ''p1'' \<noteq> []"
    by (simp add: subcollection_def early_world_def demo_world_def)
  have l: "list_projects (snd (delete_project early_world ''p1'' ''alice'')) ''alice'' = Inr []"
    by code_simp
  show ?thesis
    using p u s l delete_project_cascades [OF p u] by simp
qed

subsection \<open>Files\<close>

lemma div3_step: "(5 + n) div 3 = Suc ((2 + n) div (3::nat))"
proof -
  have "(5 + n) div 3 = (3 + (2 + n)) div 3" by (simp add: add.assoc)
  also have "\<dots> = Suc ((2 + n) div 3)" by (simp only: div_add_self1)
  finally show ?thesis .
qed

lemma length_b64encode: "length (b64encode bs) = 4 * ((length bs + 2) div 3)"
  by (induction bs rule: b64encode.induct) (simp_all add: Let_def div3_step)

lemma div3_bound:
  fixes n :: nat
  assumes "786432 \<le> n"
  shows "262144 \<le> (n + 2) div 3"
proof -
  have "(262144 * 3) div 3 \<le> (n + 2) div (3::nat)"
    using assms by (intro div_le_mono) simp
  then show ?thesis by simp
qed


text \<open>An upload of more than 10 MiB is answered 400 and nothing is written.\<close>

lemma upload_file_too_large:
  assumes "map_of (projects w) project_id = Some p" and "userId p = Some user_id"
    and "MAX_FILE_SIZE < length (upload_content file)"
  shows "upload_file env w project_id file user_id
           = (Inl (HTTPException 400 (Lit ''File too large. Maximum size: 10.0MB'')), w)"
  using assms by (simp add: upload_file_def upload_file_try_def reraise_def Let_def)

text \<open>
  An upload of 768 KiB or more, and of at most 10 MiB, passes the size check of the
  handler, and its document is refused by the store: the encoded payload alone has
  1 MiB or more. The handler answers 500 and nothing is written.
\<close>

lemma upload_file_document_refused:
  assumes "map_of (projects w) project_id = Some p" and "userId p = Some user_id"
    and "786432 \<le> length (upload_content file)"
    and "length (upload_content file) \<le> MAX_FILE_SIZE"
  shows "upload_file env w project_id file user_id
           = (Inl (HTTPException 500 (Fmt ''File upload failed: '' InvalidArgument)), w)"
proof -
  let ?d = "\<lparr>projectId = Some project_id, file_userId = Some user_id,
             filename = upload_filename file, contentType = upload_content_type file,
             file_size = Some (length (upload_content file)),
             contentBase64 = Some (b64encode (upload_content file)),
             uploadedAt = Some (now env)\<rparr>"
  have "262144 \<le> (length (upload_content file) + 2) div 3"
    using assms(3) by (rule div3_bound)
  then have "1048576 \<le> length (b64encode (upload_content file))"
    by (simp add: length_b64encode)
  then have "MAX_DOCUMENT_SIZE < file_doc_size (new_id env) ?d"
    by (simp add: file_doc_size_def MAX_DOCUMENT_SIZE_def value_size_def string_size_def)
  then have "set_file (new_id env) ?d w = Inl InvalidArgument"
    by (simp add: set_file_def)
  then show ?thesis
    using assms(1,2,4)
    by (simp add: upload_file_def upload_file_try_def reraise_def Let_def)
qed

text \<open>
  An upload within the limit of the handler whose document is within the limit of the
  store succeeds, and the document is stored under the new id.
\<close>

lemma upload_file_stored:
  fixes env :: write_env and upl :: upload and project_id user_id :: string
  defines "d \<equiv> \<lparr>projectId = Some project_id, file_userId = Some user_id,
             filename = upload_filename upl, contentType = upload_content_type upl,
             file_size = Some (length (upload_content upl)),
             contentBase64 = Some (b64encode (upload_content upl)),
             uploadedAt = Some (now env)\<rparr>"
  assumes "map_of (projects w) project_id = Some p" and "userId p = Some user_id"
    and "length (upload_content upl) \<le> MAX_FILE_SIZE"
    and "file_doc_size (new_id env) d \<le> MAX_DOCUMENT_SIZE"
  shows "upload_file env w project_id upl user_id
           = (Inr \<lparr>up_success = True, up_fileId = new_id env,
                   up_filename = upload_filename upl, up_size = length (upload_content upl),
                   up_contentType = upload_content_type upl\<rparr>,
              w\<lparr>files := AList.update (new_id env) d (files w)\<rparr>)"
  using assms
  by (simp add: upload_file_def upload_file_try_def reraise_def Let_def set_file_def)

text \<open>
  Claim C8. The caller owns the example project. An upload of exactly 10 MiB, the
  boundary size, passes the check against \<^verbatim>\<open>MAX_FILE_SIZE\<close>; the document that is to hold
  its encoded payload is larger than the store accepts, the write raises, and the handler
  answers 500; no file document is created. An upload of one byte more is answered 400,
  and none is created either.
\<close>

theorem upload_file_boundary_refused:
  "length (upload_content (upload_of 10485760)) = 10 * 1024 * 1024
   \<and> upload_file demo_write_env demo_world ''p1'' (upload_of 10485760) ''alice''
       = (Inl (HTTPException 500 (Fmt ''File upload failed: '' InvalidArgument)), demo_world)
   \<and> upload_file demo_write_env demo_world ''p1'' (upload_of 10485761) ''alice''
       = (Inl (HTTPException 400 (Lit ''File too large. Maximum size: 10.0MB'')), demo_world)
   \<and> files demo_world = []"
proof -
  have p: "map_of (projects demo_world) ''p1'' = Some demo_project"
    by (simp add: demo_world_def)
  have u: "userId demo_project = Some ''alice''"
    by (simp add: demo_project_def)
  have n: "length (upload_content (upload_of 10485760)) = 10 * 1024 * 1024"
    by (simp add: upload_of_def)
  have lo: "786432 \<le> length (upload_content (upload_of 10485760))"
    by (simp add: upload_of_def)
  have hi: "length (upload_content (upload_of 10485760)) \<le> MAX_FILE_SIZE"
    by (simp add: upload_of_def MAX_FILE_SIZE_def)
  have big: "MAX_FILE_SIZE < length (upload_content (upload_of 10485761))"
    by (simp add: upload_of_def MAX_FILE_SIZE_def)
  have e: "files demo_world = []"
    by (simp add: demo_world_def)
  show ?thesis
    using n e upload_file_document_refused [OF p u lo hi, of demo_write_env]
      upload_file_too_large [OF p u big, of demo_write_env]
    by simp
qed

text \<open>
  Claim C10. When the caller owns the addressed project, the file exists and its
  \<^verbatim>\<open>projectId\<close> is the addressed project, the deletion succeeds and the file is gone.
  Nothing is asked of the \<^verbatim>\<open>userId\<close> stored in the file: the outcome is the same when
  that field is replaced by any other value or removed.
\<close>

theorem delete_file_ignores_file_owner:
  assumes "map_of (projects w) project_id = Some p" and "userId p = Some user_id"
    and "map_of (files w) file_id = Some f" and "projectId f = Some project_id"
  shows "delete_file w project_id file_id user_id
      = (Inr \<lparr>df_success = True, df_fileId = file_id, df_message = ''File deleted successfully''\<rparr>,
         w\<lparr>files := AList.delete file_id (files w)\<rparr>)
    \<and> map_of (files (snd (delete_file w project_id file_id user_id))) file_id = None
    \<and> fst (delete_file (w\<lparr>files := AList.update file_id (f\<lparr>file_userId := owner\<rparr>) (files w)\<rparr>)
             project_id file_id user_id)
      = Inr \<lparr>df_success = True, df_fileId = file_id, df_message = ''File deleted successfully''\<rparr>"
  using assms
  by (simp add: delete_file_def delete_file_try_def reraise_def
      AList.update_conv' AList.delete_conv')

theorem delete_file_ignores_file_owner_witness:
  "map_of (projects files_world) ''p1'' = Some demo_project
   \<and> userId demo_project = Some ''alice''
   \<and> map_of (files files_world) ''f1'' = Some foreign_file
   \<and> projectId foreign_file = Some ''p1''
   \<and> file_userId foreign_file = Some ''mallory''
   \<and> delete_file files_world ''p1'' ''f1'' ''alice''
       = (Inr \<lparr>df_success = True, df_fileId = ''f1'', df_message = ''File deleted successfully''\<rparr>,
          demo_world)"
proof -
  have p: "map_of (projects files_world) ''p1'' = Some demo_project"
    by (simp add: files_world_def demo_world_def)
  have u: "userId demo_project = Some ''alice''"
    by (simp add: demo_project_def)
  have f: "map_of (files files_world) ''f1'' = Some foreign_file"
    by (simp add: files_world_def)
  have q: "projectId foreign_file = Some ''p1''"
    by (simp add: foreign_file_def)
  have o: "file_userId foreign_file = Some ''mallory''"
    by (simp add: foreign_file_def)
  have w: "files_world\<lparr>files := AList.delete ''f1'' (files files_world)\<rparr> = demo_world"
    by (simp add: files_world_def demo_world_def AList.delete_eq)
  show ?thesis
    using p u f q o w delete_file_ignores_file_owner [OF p u f q] by simp
qed

subsection \<open>Listing projects\<close>

text \<open>The ISO string of a timestamp grows strictly with the timestamp.\<close>

lemma digit_less: "a < 10 \<Longrightarrow> b < 10 \<Longrightarrow> digit a < digit b \<longleftrightarrow> a < b"
  by (simp add: digit_def less_char_def)

lemma digit_0: "digit 0 = CHR ''0''"
  unfolding digit_def by code_simp

lemma str_nat_small: "n < 10 \<Longrightarrow> str_nat n = [digit n]"
  by (subst str_nat.simps) simp

lemma str_nat_large: "\<not> n < 10 \<Longrightarrow> str_nat n = str_nat (n div 10) @ [digit (n mod 10)]"
  by (subst str_nat.simps) simp

lemma append_less_same_length:
  "length xs = length ys \<Longrightarrow> (xs @ us < ys @ vs) \<longleftrightarrow> (xs < ys \<or> xs = ys \<and> us < vs)"
  by (induction xs ys rule: list_induct2) auto

lemma fmt_d_Suc:
  assumes "0 < w"
  shows "fmt_d (Suc w) n = fmt_d w (n div 10) @ [digit (n mod 10)]"
proof (cases "n < 10")
  case True
  then have "fmt_d (Suc w) n = replicate w (CHR ''0'') @ [digit n]"
    by (simp add: fmt_d_def zfill_def str_nat_small)
  moreover have "fmt_d w (n div 10) = replicate w (CHR ''0'')"
    using True assms by (cases w) (simp_all add: fmt_d_def zfill_def digit_0 replicate_append_same str_nat_small)
  ultimately show ?thesis using True by simp
next
  case False
  show ?thesis
    by (simp add: fmt_d_def zfill_def str_nat_large [OF False])
qed



lemma fmt_d_1: "n < 10 \<Longrightarrow> fmt_d (Suc 0) n = [digit n]"
  by (simp add: fmt_d_def zfill_def str_nat_small)

lemma div10_less: "(n::nat) < 10 ^ Suc w \<Longrightarrow> n div 10 < 10 ^ w"
proof -
  assume "n < 10 ^ Suc w"
  then have "n < 10 ^ w * 10" by simp
  then show ?thesis by (rule less_mult_imp_div_less)
qed

lemma less_div_mod10:
  fixes a b :: nat
  assumes "a < b"
  shows "a div 10 < b div 10 \<or> a div 10 = b div 10 \<and> a mod 10 < b mod 10"
proof -
  define qa ra qb rb where "qa = a div 10" and "ra = a mod 10" and "qb = b div 10" and "rb = b mod 10"
  have a: "a = qa * 10 + ra" and b: "b = qb * 10 + rb"
    by (simp_all add: qa_def ra_def qb_def rb_def)
  have r: "ra < 10" "rb < 10"
    by (simp_all add: ra_def rb_def)
  have "qa < qb \<or> qa = qb \<and> ra < rb"
    using assms a b r by linarith
  then show ?thesis
    by (simp add: qa_def ra_def qb_def rb_def)
qed

lemma fmt_d_length: "0 < w \<Longrightarrow> n < 10 ^ w \<Longrightarrow> length (fmt_d w n) = w"
proof (induction w arbitrary: n)
  case 0
  then show ?case by simp
next
  case (Suc w)
  show ?case
  proof (cases "w = 0")
    case True
    then show ?thesis using Suc.prems by (simp add: fmt_d_1)
  next
    case False
    have "n div 10 < 10 ^ w" using Suc.prems(2) by (rule div10_less)
    then show ?thesis using False Suc.IH [of "n div 10"] by (simp add: fmt_d_Suc)
  qed
qed

lemma fmt_d_less:
  "0 < w \<Longrightarrow> a < 10 ^ w \<Longrightarrow> b < 10 ^ w \<Longrightarrow> a < b \<Longrightarrow> fmt_d w a < fmt_d w b"
proof (induction w arbitrary: a b)
  case 0
  then show ?case by simp
next
  case (Suc w)
  show ?case
  proof (cases "w = 0")
    case True
    then show ?thesis using Suc.prems by (simp add: fmt_d_1 digit_less)
  next
    case False
    have da: "a div 10 < 10 ^ w" and db: "b div 10 < 10 ^ w"
      using Suc.prems(2,3) by (simp_all only: div10_less)
    have len: "length (fmt_d w (a div 10)) = length (fmt_d w (b div 10))"
      using False da db by (simp add: fmt_d_length)
    have m: "a mod 10 < 10" "b mod 10 < 10" by simp_all
    have "a div 10 < b div 10 \<or> a div 10 = b div 10 \<and> a mod 10 < b mod 10"
      using \<open>a < b\<close> by (rule less_div_mod10)
    then have "fmt_d w (a div 10) < fmt_d w (b div 10)
        \<or> fmt_d w (a div 10) = fmt_d w (b div 10) \<and> [digit (a mod 10)] < [digit (b mod 10)]"
    proof
      assume "a div 10 < b div 10"
      then show ?thesis using Suc.IH [OF _ da db] False by simp
    next
      assume "a div 10 = b div 10 \<and> a mod 10 < b mod 10"
      then show ?thesis using digit_less [OF m] by simp
    qed
    then show ?thesis
      using False len by (simp add: fmt_d_Suc append_less_same_length)
  qed
qed


lemma field_less:
  assumes "0 < w" and "a < 10 ^ w" and "b < 10 ^ w" and "a < b \<or> a = b \<and> ra < rb"
  shows "fmt_d w a @ ra < fmt_d w b @ rb"
proof -
  have len: "length (fmt_d w a) = length (fmt_d w b)"
    using assms(1,2,3) by (simp add: fmt_d_length)
  from assms(4) have "fmt_d w a < fmt_d w b \<or> fmt_d w a = fmt_d w b \<and> ra < rb"
    using fmt_d_less [OF assms(1,2,3)] by auto
  then show ?thesis
    using len by (simp add: append_less_same_length)
qed

lemma field_step:
  fixes k k' :: "'k::order"
  assumes "0 < w" and "x < 10 ^ w" and "y < 10 ^ w" and "(x, k) < (y, k')"
    and "k < k' \<Longrightarrow> r < r'"
  shows "fmt_d w x @ r < fmt_d w y @ r'"
proof -
  from assms(4) have "x < y \<or> x = y \<and> k < k'" by auto
  with assms(5) have "x < y \<or> x = y \<and> r < r'" by blast
  with assms(1,2,3) show ?thesis by (rule field_less)
qed

lemma field_sep_step:
  fixes k k' :: "'k::order"
  assumes "0 < w" and "x < 10 ^ w" and "y < 10 ^ w" and "(x, k) < (y, k')"
    and "k < k' \<Longrightarrow> r < r'"
  shows "fmt_d w x @ c # r < fmt_d w y @ c # r'"
  using assms(1,2,3,4)
proof (rule field_step)
  assume "k < k'"
  then show "c # r < c # r'" using assms(5) by simp
qed

lemma frac_less:
  assumes "u < v" and "v < 1000000"
  shows "frac u < frac v"
proof (cases "u = 0")
  case True
  then show ?thesis using assms by (simp add: frac_def)
next
  case False
  have "fmt_d 6 u @ ''+00:00'' < fmt_d 6 v @ ''+00:00''"
    using assms by (intro field_less) auto
  then show ?thesis using False assms by (simp add: frac_def)
qed

lemma isoformat_less:
  assumes "valid_datetime a" and "valid_datetime b" and "dt_key a < dt_key b"
  shows "isoformat a < isoformat b"
proof -
  have ra: "year a < 10 ^ 4" "month a < 10 ^ 2" "day a < 10 ^ 2" "hour a < 10 ^ 2"
      "minute a < 10 ^ 2" "second a < 10 ^ 2"
    using assms(1) by (simp_all add: valid_datetime_def)
  have rb: "year b < 10 ^ 4" "month b < 10 ^ 2" "day b < 10 ^ 2" "hour b < 10 ^ 2"
      "minute b < 10 ^ 2" "second b < 10 ^ 2" "microsecond b < 1000000"
    using assms(2) by (simp_all add: valid_datetime_def)
  let ?S = "\<lambda>t. fmt_d 2 (second t) @ frac (microsecond t)"
  let ?M = "\<lambda>t. fmt_d 2 (minute t) @ CHR '':'' # ?S t"
  let ?H = "\<lambda>t. fmt_d 2 (hour t) @ CHR '':'' # ?M t"
  let ?D = "\<lambda>t. fmt_d 2 (day t) @ CHR ''T'' # ?H t"
  let ?Mo = "\<lambda>t. fmt_d 2 (month t) @ CHR ''-'' # ?D t"
  let ?Y = "\<lambda>t. fmt_d 4 (year t) @ CHR ''-'' # ?Mo t"
  have iso: "isoformat t = ?Y t" for t
    by (simp add: isoformat_def)
  have us: "frac (microsecond a) < frac (microsecond b)" if "microsecond a < microsecond b"
    using that rb(7) by (rule frac_less)
  have s: "?S a < ?S b"
    if "(second a, microsecond a) < (second b, microsecond b)"
    using _ ra(6) rb(6) that us by (rule field_step) simp
  have m: "?M a < ?M b"
    if "(minute a, second a, microsecond a) < (minute b, second b, microsecond b)"
    using _ ra(5) rb(5) that s by (rule field_sep_step) simp
  have h: "?H a < ?H b"
    if "(hour a, minute a, second a, microsecond a) < (hour b, minute b, second b, microsecond b)"
    using _ ra(4) rb(4) that m by (rule field_sep_step) simp
  have d: "?D a < ?D b"
    if "(day a, hour a, minute a, second a, microsecond a)
        < (day b, hour b, minute b, second b, microsecond b)"
    using _ ra(3) rb(3) that h by (rule field_sep_step) simp
  have mo: "?Mo a < ?Mo b"
    if "(month a, day a, hour a, minute a, second a, microsecond a)
        < (month b, day b, hour b, minute b, second b, microsecond b)"
    using _ ra(2) rb(2) that d by (rule field_sep_step) simp
  have key: "(year a, month a, day a, hour a, minute a, second a, microsecond a)
        < (year b, month b, day b, hour b, minute b, second b, microsecond b)"
    using assms(3) by (simp only: dt_key_def)
  have "?Y a < ?Y b"
    using _ ra(1) rb(1) key mo by (rule field_sep_step) simp
  then show ?thesis by (simp only: iso)
qed


lemma isoformat_le_imp:
  assumes "valid_datetime a" and "valid_datetime b" and "isoformat a \<le> isoformat b"
  shows "dt_key a \<le> dt_key b"
proof (rule ccontr)
  assume "\<not> dt_key a \<le> dt_key b"
  then have "dt_key b < dt_key a" by simp
  then have "isoformat b < isoformat a"
    using assms(1,2) by (intro isoformat_less)
  then show False using assms(3) by simp
qed

lemma count_list_insort_key:
  "count_list (insort_key f x xs) y = count_list (x # xs) y"
  by (induction xs) auto

lemma count_list_sort_key:
  "count_list (sort_key f xs) y = count_list xs y"
  by (induction xs) (auto simp: count_list_insort_key)

lemma insort_key_map:
  "insort_key f (g x) (map g xs) = map g (insort_key (\<lambda>x. f (g x)) x xs)"
  by (induction xs) auto

lemma sort_key_map:
  "sort_key f (map g xs) = map g (sort_key (\<lambda>x. f (g x)) xs)"
  by (induction xs) (auto simp: insort_key_map)

lemma sort_reverse_total:
  "None \<notin> set (map k xs) \<Longrightarrow> sort_reverse k xs = Inr (rev (sort_key (\<lambda>x. the (k x)) (rev xs)))"
  by (simp add: sort_reverse_def)

text \<open>A project document written by \<^verbatim>\<open>create_project\<close> carries its creation time.\<close>

lemma create_project_stamped:
  "map_of (projects (snd (create_project env w project user_id))) (new_id env)
     = Some \<lparr>userId = Some user_id, name = Some (pc_name project),
              systemPrompt = Some (system_prompt project), createdAt = Some (now env)\<rparr>"
  by (simp add: create_project_def AList.update_conv')

text \<open>
  Claim C9. When every project of the caller carries a creation timestamp, the listing
  succeeds. It is the serialization of the caller's project documents, each as often as
  it is stored; the serialized \<^verbatim>\<open>createdAt\<close> strings descend in lexicographic order
  along it; and so do the creation times themselves: the newest project comes first.
\<close>

theorem list_projects_newest_first:
  assumes "\<forall>p \<in> set (projects w). userId (snd p) = Some user_id
             \<longrightarrow> (\<exists>t. createdAt (snd p) = Some t \<and> valid_datetime t)"
  shows "\<exists>ds. list_projects w user_id = Inr (map to_project_dict ds)
      \<and> (\<forall>p. count_list ds p
              = count_list (filter (\<lambda>p. userId (snd p) = Some user_id) (projects w)) p)
      \<and> sorted (rev (map (\<lambda>p. the (pd_createdAt (to_project_dict p))) ds))
      \<and> sorted (rev (map (\<lambda>p. dt_key (the (createdAt (snd p)))) ds))"
proof -
  let ?own = "filter (\<lambda>p. userId (snd p) = Some user_id) (projects w)"
  let ?ds0 = "where_userId w user_id"
  let ?K = "\<lambda>p. the (pd_createdAt (to_project_dict p))"
  let ?D = "\<lambda>p :: string \<times> project_doc. dt_key (the (createdAt (snd p)))"
  let ?zs = "sort_key ?K (rev ?ds0)"
  have set0: "set ?ds0 = set ?own"
    by (simp add: where_userId_def)
  have stamped: "\<exists>t. createdAt (snd p) = Some t \<and> valid_datetime t" if "p \<in> set ?ds0" for p
    using that assms set0 by auto
  have key: "pd_createdAt (to_project_dict p) = Some (isoformat (the (createdAt (snd p))))"
    if "p \<in> set ?ds0" for p
    using stamped [OF that] by (auto simp: to_project_dict_def serialize_timestamp_def)
  have "None \<notin> set (map pd_createdAt (map to_project_dict ?ds0))"
    using key by force
  then have "sort_reverse pd_createdAt (map to_project_dict ?ds0)
      = Inr (rev (sort_key (\<lambda>x. the (pd_createdAt x)) (rev (map to_project_dict ?ds0))))"
    by (rule sort_reverse_total)
  also have "rev (sort_key (\<lambda>x. the (pd_createdAt x)) (rev (map to_project_dict ?ds0)))
      = map to_project_dict (rev ?zs)"
    by (simp add: rev_map sort_key_map)
  finally have res: "list_projects w user_id = Inr (map to_project_dict (rev ?zs))"
    by (simp add: list_projects_def)
  have cnt: "count_list (rev ?zs) p = count_list ?own p" for p
    by (simp add: count_list_sort_key where_userId_def)
  have sK: "sorted (map ?K ?zs)"
    by (rule sorted_sort_key)
  have mono: "?D x \<le> ?D y" if "x \<in> set ?zs" "y \<in> set ?zs" "?K x \<le> ?K y" for x y
  proof -
    have x: "x \<in> set ?ds0" and y: "y \<in> set ?ds0" using that(1,2) by simp_all
    obtain tx ty where t: "createdAt (snd x) = Some tx" "valid_datetime tx"
        "createdAt (snd y) = Some ty" "valid_datetime ty"
      using stamped [OF x] stamped [OF y] by blast
    have "isoformat tx \<le> isoformat ty"
      using that(3) key [OF x] key [OF y] t by simp
    then have "dt_key tx \<le> dt_key ty"
      using t by (intro isoformat_le_imp)
    then show ?thesis using t by simp
  qed
  have sK': "sorted_wrt (\<lambda>x y. ?K x \<le> ?K y) ?zs"
    using sK by (simp only: sorted_map)
  have "sorted_wrt (\<lambda>x y. ?D x \<le> ?D y) ?zs"
    by (rule sorted_wrt_mono_rel [where P = "\<lambda>x y. ?K x \<le> ?K y" and xs = ?zs, OF mono sK'])
  then have sD: "sorted (map ?D ?zs)"
    by (simp only: sorted_map)
  have "sorted (rev (map ?K (rev ?zs)))" "sorted (rev (map ?D (rev ?zs)))"
    using sK sD by (simp_all add: rev_map)
  with res cnt show ?thesis by blast
qed

theorem list_projects_newest_first_witness:
  "map pd_id (projr (list_projects projects_world ''alice'')) = [''p3'', ''p1'', ''p4'']
   \<and> map pd_createdAt (projr (list_projects projects_world ''alice''))
       = [Some ''2024-01-01T00:00:00.000500+00:00'', Some ''2024-01-01T00:00:00+00:00'',
          Some ''2023-12-31T23:59:59.000007+00:00'']
   \<and> (\<exists>ds. list_projects projects_world ''alice'' = Inr (map to_project_dict ds)
        \<and> sorted (rev (map (\<lambda>p. dt_key (the (createdAt (snd p)))) ds)))"
proof -
  have h: "\<forall>p \<in> set (projects projects_world). userId (snd p) = Some ''alice''
             \<longrightarrow> (\<exists>t. createdAt (snd p) = Some t \<and> valid_datetime t)"
    by (simp add: projects_world_def demo_world_def created_def valid_datetime_def at_second_def)
  have a: "map pd_id (projr (list_projects projects_world ''alice'')) = [''p3'', ''p1'', ''p4'']"
    by code_simp
  have b: "map pd_createdAt (projr (list_projects projects_world ''alice''))
       = [Some ''2024-01-01T00:00:00.000500+00:00'', Some ''2024-01-01T00:00:00+00:00'',
          Some ''2023-12-31T23:59:59.000007+00:00'']"
    by code_simp
  show ?thesis
    using a b list_projects_newest_first [OF h] by blast
qed

text \<open>
  A project document without \<^verbatim>\<open>createdAt\<close>, which no handler writes, makes the sort of
  a listing of two or more projects raise, and the handler answers 500.
\<close>

lemma list_projects_unstamped:
  "list_projects (projects_world\<lparr>projects :=
       projects projects_world @ [(''p5'', (created ''alice'' (at_second 9))\<lparr>createdAt := None\<rparr>)]\<rparr>) ''alice''
     = Inl (HTTPException 500 (Fmt [] TypeError))"
  by code_simp

end
